theory Spec2Isabelle
  imports Complex_Main
begin

section \<open>TeleLink backend: the scoring-to-decision pipeline of \<^verbatim>\<open>back_end.py\<close>\<close>

subsection \<open>Python floats\<close>

text \<open>
  The churn probability and the estimated value are IEEE-754 binary64 numbers. A finite
  one is a rational number, and the only operations the program applies to them are the
  comparisons \<^verbatim>\<open><\<close> and \<^verbatim>\<open>>\<close>, which IEEE-754 evaluates exactly. So a float
  is modelled by its exact value, or one of the two infinities, or NaN. Every binary64
  number is a value of this type (the type has more finite values than binary64 has, so a
  theorem about all values of the type covers every float; a concrete input is always
  chosen among the binary64 numbers). The sign of zero is not kept: no comparison
  distinguishes the two zeros.
\<close>

datatype pyfloat = Finite rat | PosInf | NegInf | NaN

text \<open>Python's \<^verbatim>\<open>a < b\<close> on floats: false as soon as one side is NaN.\<close>

fun float_lt :: "pyfloat \<Rightarrow> pyfloat \<Rightarrow> bool" where
  "float_lt NaN b = False"
| "float_lt a NaN = False"
| "float_lt (Finite a) (Finite b) = (a < b)"
| "float_lt (Finite a) PosInf = True"
| "float_lt (Finite a) NegInf = False"
| "float_lt PosInf b = False"
| "float_lt NegInf NegInf = False"
| "float_lt NegInf b = True"

text \<open>Python's \<^verbatim>\<open>a > b\<close> and \<^verbatim>\<open>a <= b\<close>.\<close>

definition float_gt :: "pyfloat \<Rightarrow> pyfloat \<Rightarrow> bool" where
  "float_gt a b = float_lt b a"

definition float_le :: "pyfloat \<Rightarrow> pyfloat \<Rightarrow> bool" where
  "float_le a b = (float_lt a b \<or> (a = b \<and> a \<noteq> NaN))"

text \<open>
  The literals of the source. A decimal literal denotes the binary64 number nearest to
  it, which is not the decimal fraction itself: \<^verbatim>\<open>0.1\<close> is
  \<open>3602879701896397 / 2^55\<close>, slightly above one tenth. The integer literals
  \<^verbatim>\<open>30000\<close> and \<^verbatim>\<open>40000\<close> are compared with a float by value.
\<close>

definition lit_0_1 :: rat where "lit_0_1 = 3602879701896397 / 2 ^ 55"
definition lit_0_2 :: rat where "lit_0_2 = 3602879701896397 / 2 ^ 54"
definition lit_0_3 :: rat where "lit_0_3 = 5404319552844595 / 2 ^ 54"
definition lit_0_4 :: rat where "lit_0_4 = 3602879701896397 / 2 ^ 53"
definition lit_0_7 :: rat where "lit_0_7 = 3152519739159347 / 2 ^ 52"
definition lit_0_8 :: rat where "lit_0_8 = 3602879701896397 / 2 ^ 52"
definition lit_0_9 :: rat where "lit_0_9 = 8106479329266893 / 2 ^ 53"

lemmas lit_defs =
  lit_0_1_def lit_0_2_def lit_0_3_def lit_0_4_def lit_0_7_def lit_0_8_def lit_0_9_def

text \<open>
  A rational is a finite binary64 number when it is \<open>m * 2^e\<close> for a significand of at
  most 53 bits and an exponent in range. This predicate is not part of the program; it
  records that the inputs used below are inputs the program can receive.
\<close>

definition is_binary64 :: "rat \<Rightarrow> bool" where
  "is_binary64 q = (\<exists>m e. \<bar>m\<bar> < 2 ^ 53 \<and> e \<le> 1074 \<and> q = of_int m / 2 ^ e)"

subsection \<open>Decision engine\<close>

text \<open>
  Python strings are written as \<^typ>\<open>string\<close>; a character beyond ASCII (the emoji that
  opens each recommendation) is written as its UTF-8 bytes.
\<close>

definition rec_CRITICAL :: string where
  "rec_CRITICAL = [CHR 0xF0, CHR 0x9F, CHR 0x9A, CHR 0xA8] @
     '' CRITICAL: High-value customer at severe risk. Immediate executive intervention required. Offer premium retention package.''"

definition rec_HIGH_PRIORITY :: string where
  "rec_HIGH_PRIORITY = [CHR 0xE2, CHR 0x9A, CHR 0xA0, CHR 0xEF, CHR 0xB8, CHR 0x8F] @
     '' HIGH PRIORITY: Customer likely to churn. Assign dedicated account manager and offer targeted incentives within 24 hours.''"

definition rec_PROACTIVE :: string where
  "rec_PROACTIVE = [CHR 0xF0, CHR 0x9F, CHR 0x93, CHR 0x9E] @
     '' PROACTIVE: Valuable customer showing warning signs. Schedule personal check-in call and present loyalty rewards.''"

definition rec_MONITOR :: string where
  "rec_MONITOR = [CHR 0xF0, CHR 0x9F, CHR 0x91, CHR 0x80] @
     '' MONITOR: Elevated churn risk detected. Increase engagement through personalized offers and service improvements.''"

definition rec_NURTURE :: string where
  "rec_NURTURE = [CHR 0xE2, CHR 0xAD, CHR 0x90] @
     '' NURTURE: High-value loyal customer. Continue VIP treatment and explore upsell opportunities.''"

definition rec_MAINTAIN :: string where
  "rec_MAINTAIN = [CHR 0xE2, CHR 0x9C, CHR 0x85] @
     '' MAINTAIN: Healthy customer relationship. Continue standard engagement and periodic satisfaction surveys.''"

lemmas rec_defs =
  rec_CRITICAL_def rec_HIGH_PRIORITY_def rec_PROACTIVE_def rec_MONITOR_def
  rec_NURTURE_def rec_MAINTAIN_def

definition get_recommendation :: "pyfloat \<Rightarrow> pyfloat \<Rightarrow> string" where
  "get_recommendation churn_prob clv =
     (if float_gt churn_prob (Finite lit_0_4) then
        (if float_gt clv (Finite 30000) then rec_CRITICAL else rec_HIGH_PRIORITY)
      else if float_gt churn_prob (Finite lit_0_2) then
        (if float_gt clv (Finite 30000) then rec_PROACTIVE else rec_MONITOR)
      else
        (if float_gt clv (Finite 40000) then rec_NURTURE else rec_MAINTAIN))"

definition get_confidence_level :: "pyfloat \<Rightarrow> string" where
  "get_confidence_level churn_prob =
     (if float_lt churn_prob (Finite lit_0_1) \<or> float_gt churn_prob (Finite lit_0_9)
        then ''Very High''
      else if float_lt churn_prob (Finite lit_0_2) \<or> float_gt churn_prob (Finite lit_0_8)
        then ''High''
      else if float_lt churn_prob (Finite lit_0_3) \<or> float_gt churn_prob (Finite lit_0_7)
        then ''Moderate''
      else ''Low'')"

text \<open>
  The risk ladder is written twice in the source, inline in each handler: as an
  \<^verbatim>\<open>if/elif/else\<close> statement assigning \<^verbatim>\<open>risk_level\<close> in \<^verbatim>\<open>predict_customer\<close>,
  and as a conditional expression in \<^verbatim>\<open>batch_predict\<close>.
\<close>

definition risk_level :: "pyfloat \<Rightarrow> string" where
  "risk_level churn_prob =
     (if float_gt churn_prob (Finite lit_0_4) then ''High''
      else if float_gt churn_prob (Finite lit_0_2) then ''Medium''
      else ''Low'')"

definition risk_level_batch :: "pyfloat \<Rightarrow> string" where
  "risk_level_batch churn_prob =
     (if float_gt churn_prob (Finite lit_0_4) then ''High''
      else (if float_gt churn_prob (Finite lit_0_2) then ''Medium'' else ''Low''))"


text \<open>
  The six recommendation strings and the six confidence thresholds of the source,
  collected for the statements below.
\<close>

definition recommendation_catalog :: "string list" where
  "recommendation_catalog =
     [rec_CRITICAL, rec_HIGH_PRIORITY, rec_PROACTIVE, rec_MONITOR, rec_NURTURE, rec_MAINTAIN]"

definition confidence_thresholds :: "rat list" where
  "confidence_thresholds = [lit_0_1, lit_0_2, lit_0_3, lit_0_7, lit_0_8, lit_0_9]"

subsection \<open>Request and response data\<close>

text \<open>
  \<^verbatim>\<open>CustomerData\<close> as the handlers receive it: the framework has already validated
  the field constraints.
\<close>

record CustomerData =
  accountLength :: int
  state :: string
  areaCode :: string
  internationalPlan :: string
  voiceMailPlan :: string
  numberOfVmailMessages :: int
  totalDayCalls :: int
  totalEveCalls :: int
  totalNightCalls :: int
  totalIntlCalls :: int
  customerServiceCalls :: int

record PredictionResponse =
  churn_probability :: pyfloat
  churn_risk :: string
  estimated_clv :: pyfloat
  recommendation :: string
  confidence :: string

text \<open>
  The one-row data frame built for the models: its columns in order, each with the
  single value it holds.
\<close>

datatype cell = IntCell int | StrCell string

type_synonym DataFrame = "(string \<times> cell) list"

definition prepare_input_data :: "CustomerData \<Rightarrow> DataFrame" where
  "prepare_input_data customer =
     [(''Account length'', IntCell (accountLength customer)),
      (''International plan'', StrCell (internationalPlan customer)),
      (''Voice mail plan'', StrCell (voiceMailPlan customer)),
      (''Number vmail messages'', IntCell (numberOfVmailMessages customer)),
      (''Total day calls'', IntCell (totalDayCalls customer)),
      (''Total eve calls'', IntCell (totalEveCalls customer)),
      (''Total night calls'', IntCell (totalNightCalls customer)),
      (''Total intl calls'', IntCell (totalIntlCalls customer)),
      (''Customer service calls'', IntCell (customerServiceCalls customer)),
      (''State'', StrCell (state customer)),
      (''Area code'', StrCell (areaCode customer))]"

subsection \<open>The models and the handlers\<close>

text \<open>
  The two models are loaded from files and are opaque. A loaded model is taken as a
  parameter: the function from the data frame to what the scoring expression yields,
  \<^verbatim>\<open>churn_model.predict_proba(input_data)[0][1]\<close> for the churn model and
  \<^verbatim>\<open>clv_model.predict(input_data)[0]\<close> for the value model, which is a float or an
  exception (an instance of \<^verbatim>\<open>Exception\<close>, kept as its message \<^verbatim>\<open>str(e)\<close>).
  The global variable of a model is \<open>None\<close> when loading failed.
\<close>

datatype py_exception = PyException string

fun str :: "py_exception \<Rightarrow> string" where
  "str (PyException msg) = msg"

type_synonym model = "DataFrame \<Rightarrow> py_exception + pyfloat"

record HTTPException =
  status_code :: int
  detail :: string

text \<open>
  The calls a handler makes, in order. The handlers return this log beside their result,
  so that a statement can say which components ran.
\<close>

datatype call =
  Call_prepare_input_data CustomerData
| Call_predict_proba DataFrame
| Call_predict DataFrame
| Call_get_recommendation pyfloat pyfloat
| Call_get_confidence_level pyfloat

text \<open>The body of the \<^verbatim>\<open>try\<close> block of \<^verbatim>\<open>predict_customer\<close>.\<close>

definition predict_customer_try ::
  "model \<Rightarrow> model \<Rightarrow> CustomerData \<Rightarrow> (py_exception + PredictionResponse) \<times> call list" where
  "predict_customer_try churn_model clv_model customer =
     (let input_data = prepare_input_data customer;
          calls1 = [Call_prepare_input_data customer, Call_predict_proba input_data]
      in case churn_model input_data of
           Inl e \<Rightarrow> (Inl e, calls1)
         | Inr churn_prob \<Rightarrow>
             (let calls2 = calls1 @ [Call_predict input_data]
              in case clv_model input_data of
                   Inl e \<Rightarrow> (Inl e, calls2)
                 | Inr clv \<Rightarrow>
                     (Inr \<lparr>churn_probability = churn_prob,
                           churn_risk = risk_level churn_prob,
                           estimated_clv = clv,
                           recommendation = get_recommendation churn_prob clv,
                           confidence = get_confidence_level churn_prob\<rparr>,
                      calls2 @ [Call_get_recommendation churn_prob clv,
                              Call_get_confidence_level churn_prob])))"

definition predict_customer ::
  "model option \<Rightarrow> model option \<Rightarrow> CustomerData
     \<Rightarrow> (HTTPException + PredictionResponse) \<times> call list" where
  "predict_customer churn_model clv_model customer =
     (if churn_model = None \<or> clv_model = None then
        (Inl \<lparr>status_code = 503,
              detail = ''ML models not loaded. Please ensure model files are available.''\<rparr>, [])
      else
        (case predict_customer_try (the churn_model) (the clv_model) customer of
           (Inr response, calls) \<Rightarrow> (Inr response, calls)
         | (Inl e, calls) \<Rightarrow>
             (Inl \<lparr>status_code = 500, detail = ''Prediction error: '' @ str e\<rparr>, calls)))"

text \<open>
  A batch item is a dictionary with the five keys of a \<^verbatim>\<open>PredictionResponse\<close>, in
  the order of the dictionary display.
\<close>

datatype py_value = PyFloat pyfloat | PyStr string

type_synonym py_dict = "(string \<times> py_value) list"

record BatchResponse =
  predictions :: "py_dict list"
  count :: int

text \<open>
  The \<^verbatim>\<open>for\<close> loop of \<^verbatim>\<open>batch_predict\<close>, with \<^verbatim>\<open>results\<close> as it grows; an
  exception leaves the loop at once.
\<close>

fun batch_loop ::
  "model \<Rightarrow> model \<Rightarrow> CustomerData list \<Rightarrow> py_dict list \<Rightarrow> call list
     \<Rightarrow> (py_exception + py_dict list) \<times> call list" where
  "batch_loop churn_model clv_model [] results calls = (Inr results, calls)"
| "batch_loop churn_model clv_model (customer # customers) results calls =
     (let input_data = prepare_input_data customer;
          calls1 = calls @ [Call_prepare_input_data customer, Call_predict_proba input_data]
      in case churn_model input_data of
           Inl e \<Rightarrow> (Inl e, calls1)
         | Inr churn_prob \<Rightarrow>
             (let calls2 = calls1 @ [Call_predict input_data]
              in case clv_model input_data of
                   Inl e \<Rightarrow> (Inl e, calls2)
                 | Inr clv \<Rightarrow>
                     batch_loop churn_model clv_model customers
                       (results @
                          [[(''churn_probability'', PyFloat churn_prob),
                            (''churn_risk'', PyStr (risk_level_batch churn_prob)),
                            (''estimated_clv'', PyFloat clv),
                            (''recommendation'', PyStr (get_recommendation churn_prob clv)),
                            (''confidence'', PyStr (get_confidence_level churn_prob))]])
                       (calls2 @ [Call_get_recommendation churn_prob clv,
                                Call_get_confidence_level churn_prob])))"

definition batch_predict ::
  "model option \<Rightarrow> model option \<Rightarrow> CustomerData list
     \<Rightarrow> (HTTPException + BatchResponse) \<times> call list" where
  "batch_predict churn_model clv_model customers =
     (if churn_model = None \<or> clv_model = None then
        (Inl \<lparr>status_code = 503, detail = ''ML models not loaded.''\<rparr>, [])
      else
        (case batch_loop (the churn_model) (the clv_model) customers [] [] of
           (Inr results, calls) \<Rightarrow>
             (Inr \<lparr>predictions = results, count = int (length results)\<rparr>, calls)
         | (Inl e, calls) \<Rightarrow>
             (Inl \<lparr>status_code = 500, detail = ''Batch prediction error: '' @ str e\<rparr>, calls)))"

text \<open>
  The example record of \<^verbatim>\<open>CustomerData.Config\<close>, used as a concrete input below.
\<close>

definition example_customer :: CustomerData where
  "example_customer =
     \<lparr>accountLength = 128, state = ''CA'', areaCode = ''415'', internationalPlan = ''no'',
      voiceMailPlan = ''yes'', numberOfVmailMessages = 25, totalDayCalls = 110,
      totalEveCalls = 85, totalNightCalls = 95, totalIntlCalls = 3,
      customerServiceCalls = 1\<rparr>"

text \<open>
  Two concrete models for the inputs below: a churn model that raises on the state code
  \<^verbatim>\<open>ZZ\<close> and returns one half otherwise, and a value model that returns 50000.
\<close>

definition example_churn_model :: model where
  "example_churn_model df =
     (if map_of df ''State'' = Some (StrCell ''ZZ'')
      then Inl (PyException ''unknown category ZZ'') else Inr (Finite (1 / 2)))"

definition example_clv_model :: model where
  "example_clv_model df = Inr (Finite 50000)"

text \<open>
  The fields of a \<^verbatim>\<open>PredictionResponse\<close> as a dictionary, to compare a batch item with
  the response of the single-record handler.
\<close>

definition response_dict :: "PredictionResponse \<Rightarrow> py_dict" where
  "response_dict r =
     [(''churn_probability'', PyFloat (churn_probability r)),
      (''churn_risk'', PyStr (churn_risk r)),
      (''estimated_clv'', PyFloat (estimated_clv r)),
      (''recommendation'', PyStr (recommendation r)),
      (''confidence'', PyStr (confidence r))]"

section \<open>Properties\<close>

subsection \<open>Comparisons, literals and strings\<close>



lemma rec_distinct: "distinct recommendation_catalog"
  by (simp add: recommendation_catalog_def rec_defs)

lemma rec_nonempty: "[] \<notin> set recommendation_catalog"
  by (simp add: recommendation_catalog_def rec_defs)

lemma float_gt_le_excl: "float_gt p (Finite c) \<Longrightarrow> \<not> float_le p (Finite c)"
  by (cases p) (auto simp: float_gt_def float_le_def)

lemma float_le_or_gt: "p \<noteq> NaN \<Longrightarrow> float_le p (Finite c) \<or> float_gt p (Finite c)"
  by (cases p) (auto simp: float_gt_def float_le_def)

lemma float_le_trans_lit: "float_le p (Finite a) \<Longrightarrow> a \<le> b \<Longrightarrow> \<not> float_gt p (Finite b)"
  by (cases p) (auto simp: float_gt_def float_le_def)

lemma float_gt_mono_lit: "float_gt p (Finite b) \<Longrightarrow> a \<le> b \<Longrightarrow> float_gt p (Finite a)"
  by (cases p) (auto simp: float_gt_def)

lemma lit_order: "lit_0_1 < lit_0_2" "lit_0_2 < lit_0_3" "lit_0_3 < lit_0_4" "lit_0_4 < lit_0_7"
  "lit_0_7 < lit_0_8" "lit_0_8 < lit_0_9" "0 < lit_0_1" "lit_0_9 < 1"
  by (simp_all add: lit_defs)

text \<open>
  Claim C1. For every churn probability \<open>p\<close> in [0,1] the risk tier is one of Low,
  Medium and High, exactly one of the three bands applies, and the boundaries are strict:
  \<open>p > 0.4\<close> gives High, \<open>0.2 < p \<le> 0.4\<close> gives Medium, \<open>p \<le> 0.2\<close> gives Low; at
  \<open>p = 0.4\<close> the tier is Medium and at \<open>p = 0.2\<close> it is Low. Both handlers compute
  the same tier.
\<close>

theorem risk_tier_boundaries:
  assumes "float_le (Finite 0) p" and "float_le p (Finite 1)"
  shows "risk_level p \<in> {''Low'', ''Medium'', ''High''}
    \<and> risk_level_batch p = risk_level p
    \<and> (float_gt p (Finite lit_0_4)
        \<or> (float_gt p (Finite lit_0_2) \<and> float_le p (Finite lit_0_4))
        \<or> float_le p (Finite lit_0_2))
    \<and> (float_gt p (Finite lit_0_4) \<longrightarrow> risk_level p = ''High'')
    \<and> (float_gt p (Finite lit_0_2) \<and> float_le p (Finite lit_0_4) \<longrightarrow> risk_level p = ''Medium'')
    \<and> (float_le p (Finite lit_0_2) \<longrightarrow> risk_level p = ''Low'')
    \<and> risk_level (Finite lit_0_4) = ''Medium''
    \<and> risk_level (Finite lit_0_2) = ''Low''"
proof -
  have "\<not> float_gt p (Finite lit_0_4)" if "float_le p (Finite lit_0_2)"
    using that float_le_trans_lit [of p lit_0_2 lit_0_4] lit_order by simp
  moreover have "\<not> float_gt p (Finite lit_0_2)" if "float_le p (Finite lit_0_2)"
    using that float_gt_le_excl by blast
  moreover have "\<not> float_gt p (Finite lit_0_4)" if "float_le p (Finite lit_0_4)"
    using that float_gt_le_excl by blast
  moreover have "risk_level (Finite lit_0_4) = ''Medium''" "risk_level (Finite lit_0_2) = ''Low''"
    by (simp_all add: risk_level_def float_gt_def lit_defs)
  moreover have "float_gt p (Finite lit_0_4)
        \<or> (float_gt p (Finite lit_0_2) \<and> float_le p (Finite lit_0_4))
        \<or> float_le p (Finite lit_0_2)"
  proof -
    from assms(1) have "p \<noteq> NaN"
      by (auto simp: float_le_def)
    then show ?thesis
      using float_le_or_gt [of p lit_0_4] float_le_or_gt [of p lit_0_2] by blast
  qed
  ultimately show ?thesis
    by (simp add: risk_level_def risk_level_batch_def)
qed

theorem risk_tier_boundaries_witness:
  "float_le (Finite 0) (Finite (1 / 4)) \<and> float_le (Finite (1 / 4)) (Finite 1)
   \<and> float_gt (Finite (1 / 4)) (Finite lit_0_2) \<and> float_le (Finite (1 / 4)) (Finite lit_0_4)
   \<and> risk_level (Finite (1 / 4)) = ''Medium''"
  using risk_tier_boundaries [of "Finite (1 / 4)"]
  by (simp add: float_le_def float_gt_def lit_defs)


lemma conf_Finite:
  "get_confidence_level (Finite x) =
     (if x < lit_0_1 \<or> lit_0_9 < x then ''Very High''
      else if x < lit_0_2 \<or> lit_0_8 < x then ''High''
      else if x < lit_0_3 \<or> lit_0_7 < x then ''Moderate''
      else ''Low'')"
  by (simp add: get_confidence_level_def float_gt_def)

text \<open>
  Claim C2. The confidence tier is the first match of the ordered checks: \<open>p < 0.1\<close>
  or \<open>p > 0.9\<close> gives Very High; else \<open>p < 0.2\<close> or \<open>p > 0.8\<close> gives High; else
  \<open>p < 0.3\<close> or \<open>p > 0.7\<close> gives Moderate; otherwise Low. For a finite \<open>x\<close> this
  makes each tier a pair of intervals. At \<open>p = 0.2\<close> the second check is false
  (\<open>0.2 < 0.2\<close> is false), the third is true, and the tier is Moderate.
\<close>

theorem confidence_ordered_checks:
  "(float_lt p (Finite lit_0_1) \<or> float_gt p (Finite lit_0_9)
      \<longrightarrow> get_confidence_level p = ''Very High'')
   \<and> (\<not> (float_lt p (Finite lit_0_1) \<or> float_gt p (Finite lit_0_9))
      \<and> (float_lt p (Finite lit_0_2) \<or> float_gt p (Finite lit_0_8))
      \<longrightarrow> get_confidence_level p = ''High'')
   \<and> (\<not> (float_lt p (Finite lit_0_1) \<or> float_gt p (Finite lit_0_9))
      \<and> \<not> (float_lt p (Finite lit_0_2) \<or> float_gt p (Finite lit_0_8))
      \<and> (float_lt p (Finite lit_0_3) \<or> float_gt p (Finite lit_0_7))
      \<longrightarrow> get_confidence_level p = ''Moderate'')
   \<and> (\<not> (float_lt p (Finite lit_0_1) \<or> float_gt p (Finite lit_0_9))
      \<and> \<not> (float_lt p (Finite lit_0_2) \<or> float_gt p (Finite lit_0_8))
      \<and> \<not> (float_lt p (Finite lit_0_3) \<or> float_gt p (Finite lit_0_7))
      \<longrightarrow> get_confidence_level p = ''Low'')
   \<and> (get_confidence_level (Finite x) = ''Very High'' \<longleftrightarrow> x < lit_0_1 \<or> lit_0_9 < x)
   \<and> (get_confidence_level (Finite x) = ''High''
        \<longleftrightarrow> (lit_0_1 \<le> x \<and> x < lit_0_2) \<or> (lit_0_8 < x \<and> x \<le> lit_0_9))
   \<and> (get_confidence_level (Finite x) = ''Moderate''
        \<longleftrightarrow> (lit_0_2 \<le> x \<and> x < lit_0_3) \<or> (lit_0_7 < x \<and> x \<le> lit_0_8))
   \<and> (get_confidence_level (Finite x) = ''Low'' \<longleftrightarrow> lit_0_3 \<le> x \<and> x \<le> lit_0_7)
   \<and> \<not> float_lt (Finite lit_0_2) (Finite lit_0_2)
   \<and> float_lt (Finite lit_0_2) (Finite lit_0_3)
   \<and> get_confidence_level (Finite lit_0_2) = ''Moderate''"
proof -
  have ladder: "get_confidence_level p =
     (if float_lt p (Finite lit_0_1) \<or> float_gt p (Finite lit_0_9) then ''Very High''
      else if float_lt p (Finite lit_0_2) \<or> float_gt p (Finite lit_0_8) then ''High''
      else if float_lt p (Finite lit_0_3) \<or> float_gt p (Finite lit_0_7) then ''Moderate''
      else ''Low'')"
    by (simp add: get_confidence_level_def)
  have intervals:
    "get_confidence_level (Finite x) = ''Very High'' \<longleftrightarrow> x < lit_0_1 \<or> lit_0_9 < x"
    "get_confidence_level (Finite x) = ''High''
        \<longleftrightarrow> (lit_0_1 \<le> x \<and> x < lit_0_2) \<or> (lit_0_8 < x \<and> x \<le> lit_0_9)"
    "get_confidence_level (Finite x) = ''Moderate''
        \<longleftrightarrow> (lit_0_2 \<le> x \<and> x < lit_0_3) \<or> (lit_0_7 < x \<and> x \<le> lit_0_8)"
    "get_confidence_level (Finite x) = ''Low'' \<longleftrightarrow> lit_0_3 \<le> x \<and> x \<le> lit_0_7"
    using lit_order by (auto simp: conf_Finite)
  have at_0_2: "get_confidence_level (Finite lit_0_2) = ''Moderate''"
    using lit_order by (simp add: conf_Finite)
  have cmp: "\<not> float_lt (Finite lit_0_2) (Finite lit_0_2)"
    "float_lt (Finite lit_0_2) (Finite lit_0_3)"
    using lit_order by simp_all
  show ?thesis
    using intervals at_0_2 cmp by (simp add: ladder)
qed

theorem confidence_ordered_checks_witness:
  "float_lt (Finite (1 / 4)) (Finite lit_0_3)
   \<and> \<not> (float_lt (Finite (1 / 4)) (Finite lit_0_1) \<or> float_gt (Finite (1 / 4)) (Finite lit_0_9))
   \<and> \<not> (float_lt (Finite (1 / 4)) (Finite lit_0_2) \<or> float_gt (Finite (1 / 4)) (Finite lit_0_8))
   \<and> get_confidence_level (Finite (1 / 4)) = ''Moderate''"
  using confidence_ordered_checks [of "Finite (1 / 4)" "1 / 4"]
  by (simp add: float_gt_def lit_defs)

text \<open>
  Claim C3 as stated: at \<open>p = 0.3\<close> and \<open>clv = 35000\<close> the tiers would be Medium and
  Moderate with the PROACTIVE recommendation. The confidence tier is not Moderate there:
  \<open>0.3 < 0.3\<close> is false and \<open>0.3 > 0.7\<close> is false, so no check matches.
\<close>

theorem scenario_3_counterexample:
  "\<not> (risk_level (Finite lit_0_3) = ''Medium''
      \<and> get_confidence_level (Finite lit_0_3) = ''Moderate''
      \<and> get_recommendation (Finite lit_0_3) (Finite 35000) = rec_PROACTIVE)"
  by (simp add: conf_Finite lit_defs)

text \<open>
  Claim C3, amended. At \<open>p = 0.3\<close> and \<open>clv = 35000\<close> the risk tier is Medium, the
  confidence tier is Low, and the recommendation is the PROACTIVE one.
\<close>

theorem scenario_3_confidence_low:
  "risk_level (Finite lit_0_3) = ''Medium''
   \<and> risk_level_batch (Finite lit_0_3) = ''Medium''
   \<and> get_confidence_level (Finite lit_0_3) = ''Low''
   \<and> get_recommendation (Finite lit_0_3) (Finite 35000) = rec_PROACTIVE"
  by (simp add: conf_Finite risk_level_def risk_level_batch_def get_recommendation_def
      float_gt_def lit_defs)


lemma lit_0_9_binary64: "is_binary64 lit_0_9 \<and> is_binary64 (1 - lit_0_9)"
proof -
  have "is_binary64 lit_0_9"
    unfolding is_binary64_def lit_0_9_def
    by (rule exI [of _ 8106479329266893], rule exI [of _ 53]) simp
  moreover have "is_binary64 (1 - lit_0_9)"
    unfolding is_binary64_def lit_0_9_def
    by (rule exI [of _ 900719925474099], rule exI [of _ 53]) simp
  ultimately show ?thesis by simp
qed

text \<open>
  Claim C4 as stated: \<open>get_confidence_level(p) = get_confidence_level(1 - p)\<close> for
  every \<open>p\<close> in [0,1]. The float literals \<open>0.1\<close> and \<open>0.9\<close> do not mirror each other
  exactly (their sum is \<open>1 + 2^-55\<close>). At \<open>p = 0.9\<close> the tier is High, since
  \<open>0.9 > 0.9\<close> is false; \<open>1 - 0.9\<close> is a binary64 number, so the subtraction is
  exact, and it lies below the literal \<open>0.1\<close>, where the tier is Very High.
\<close>

theorem confidence_symmetry_counterexample:
  "float_le (Finite 0) (Finite lit_0_9) \<and> float_le (Finite lit_0_9) (Finite 1)
   \<and> get_confidence_level (Finite lit_0_9) = ''High''
   \<and> get_confidence_level (Finite (1 - lit_0_9)) = ''Very High''
   \<and> get_confidence_level (Finite lit_0_9) \<noteq> get_confidence_level (Finite (1 - lit_0_9))"
  by (simp add: conf_Finite float_le_def lit_defs)

text \<open>
  Claim C4, amended. For every \<open>p\<close> in [0,1] farther than \<open>2^-53\<close> from each of the
  six thresholds, the confidence tier of \<open>p\<close> equals that of \<open>q\<close>, for every \<open>q\<close>
  within \<open>2^-54\<close> of \<open>1 - p\<close>: the exact difference, and also the difference rounded
  to the nearest binary64 number, whose error on [0,1] is at most \<open>2^-54\<close>.
\<close>

theorem confidence_symmetry_away_from_thresholds:
  assumes "0 \<le> p" and "p \<le> 1"
    and away: "\<forall>t \<in> set confidence_thresholds. \<bar>p - t\<bar> > 1 / 2 ^ 53"
    and near: "\<bar>q - (1 - p)\<bar> \<le> 1 / 2 ^ 54"
  shows "get_confidence_level (Finite p) = get_confidence_level (Finite q)"
proof -
  from away have a:
    "\<bar>p - lit_0_1\<bar> > 1 / 2 ^ 53" "\<bar>p - lit_0_2\<bar> > 1 / 2 ^ 53" "\<bar>p - lit_0_3\<bar> > 1 / 2 ^ 53"
    "\<bar>p - lit_0_7\<bar> > 1 / 2 ^ 53" "\<bar>p - lit_0_8\<bar> > 1 / 2 ^ 53" "\<bar>p - lit_0_9\<bar> > 1 / 2 ^ 53"
    by (simp_all add: confidence_thresholds_def)
  have m1: "p < lit_0_1 \<longleftrightarrow> lit_0_9 < q"
    using a(1) near unfolding lit_defs by (simp add: abs_if split: if_splits)
  have m9: "lit_0_9 < p \<longleftrightarrow> q < lit_0_1"
    using a(6) near unfolding lit_defs by (simp add: abs_if split: if_splits)
  have m2: "p < lit_0_2 \<longleftrightarrow> lit_0_8 < q"
    using a(2) near unfolding lit_defs by (simp add: abs_if split: if_splits)
  have m8: "lit_0_8 < p \<longleftrightarrow> q < lit_0_2"
    using a(5) near unfolding lit_defs by (simp add: abs_if split: if_splits)
  have m3: "p < lit_0_3 \<longleftrightarrow> lit_0_7 < q"
    using a(3) near unfolding lit_defs by (simp add: abs_if split: if_splits)
  have m7: "lit_0_7 < p \<longleftrightarrow> q < lit_0_3"
    using a(4) near unfolding lit_defs by (simp add: abs_if split: if_splits)
  show ?thesis
    unfolding conf_Finite m1 m9 m2 m8 m3 m7 by (simp add: disj_commute)
qed

theorem confidence_symmetry_away_from_thresholds_witness:
  "(0::rat) \<le> 1 / 4 \<and> (1 / 4 :: rat) \<le> 1
   \<and> \<bar>1 / 4 - lit_0_1\<bar> > 1 / 2 ^ 53 \<and> \<bar>1 / 4 - lit_0_2\<bar> > 1 / 2 ^ 53
   \<and> \<bar>1 / 4 - lit_0_3\<bar> > 1 / 2 ^ 53 \<and> \<bar>1 / 4 - lit_0_7\<bar> > 1 / 2 ^ 53
   \<and> \<bar>1 / 4 - lit_0_8\<bar> > 1 / 2 ^ 53 \<and> \<bar>1 / 4 - lit_0_9\<bar> > 1 / 2 ^ 53
   \<and> \<bar>3 / 4 - (1 - 1 / 4 :: rat)\<bar> \<le> 1 / 2 ^ 54
   \<and> get_confidence_level (Finite (1 / 4)) = get_confidence_level (Finite (3 / 4))
   \<and> get_confidence_level (Finite (1 / 4)) = ''Moderate''"
proof -
  have h: "\<forall>t \<in> set confidence_thresholds. \<bar>1 / 4 - t\<bar> > 1 / 2 ^ 53"
    by (simp add: confidence_thresholds_def lit_defs)
  have n: "\<bar>3 / 4 - (1 - 1 / 4 :: rat)\<bar> \<le> 1 / 2 ^ 54" by simp
  from confidence_symmetry_away_from_thresholds [of "1 / 4" "3 / 4", OF _ _ h n] h n
  show ?thesis by (simp add: conf_Finite lit_defs)
qed


lemma get_recommendation_in_catalog: "get_recommendation p clv \<in> set recommendation_catalog"
  by (simp add: get_recommendation_def recommendation_catalog_def)

lemma catalog_reachable:
  assumes "s \<in> set recommendation_catalog"
  shows "\<exists>p clv. get_recommendation p clv = s"
proof -
  have "get_recommendation (Finite (1 / 2)) (Finite 50000) = rec_CRITICAL"
    "get_recommendation (Finite (1 / 2)) (Finite 10000) = rec_HIGH_PRIORITY"
    "get_recommendation (Finite (1 / 4)) (Finite 50000) = rec_PROACTIVE"
    "get_recommendation (Finite (1 / 4)) (Finite 10000) = rec_MONITOR"
    "get_recommendation (Finite (1 / 16)) (Finite 50000) = rec_NURTURE"
    "get_recommendation (Finite (1 / 16)) (Finite 10000) = rec_MAINTAIN"
    by (simp_all add: get_recommendation_def float_gt_def lit_defs)
  with assms show ?thesis
    unfolding recommendation_catalog_def by (metis empty_iff empty_set set_ConsD)
qed

text \<open>
  Claim C5. The recommendation is determined by the probability band (\<open>p > 0.4\<close>;
  \<open>0.2 < p \<le> 0.4\<close>; \<open>p \<le> 0.2\<close>) and the value band (\<open>clv > 30000\<close> in the two
  upper probability bands, \<open>clv > 40000\<close> in the low one). The strings it can return are
  exactly the six of the catalog, which are distinct and not empty; for every \<open>p\<close>
  and \<open>clv\<close> the result is one of them.
\<close>

theorem recommendation_six_outputs:
  "get_recommendation p clv \<in> set recommendation_catalog
   \<and> get_recommendation p clv \<noteq> []
   \<and> {s. \<exists>p clv. get_recommendation p clv = s} = set recommendation_catalog
   \<and> card (set recommendation_catalog) = 6
   \<and> [] \<notin> set recommendation_catalog
   \<and> (float_gt p (Finite lit_0_4) \<longrightarrow> get_recommendation p clv =
        (if float_gt clv (Finite 30000) then rec_CRITICAL else rec_HIGH_PRIORITY))
   \<and> (float_gt p (Finite lit_0_2) \<and> float_le p (Finite lit_0_4) \<longrightarrow> get_recommendation p clv =
        (if float_gt clv (Finite 30000) then rec_PROACTIVE else rec_MONITOR))
   \<and> (float_le p (Finite lit_0_2) \<longrightarrow> get_recommendation p clv =
        (if float_gt clv (Finite 40000) then rec_NURTURE else rec_MAINTAIN))"
proof -
  have mem: "get_recommendation p clv \<in> set recommendation_catalog"
    by (rule get_recommendation_in_catalog)
  have ne: "get_recommendation p clv \<noteq> []"
    using mem rec_nonempty by metis
  have rng: "{s. \<exists>p clv. get_recommendation p clv = s} = set recommendation_catalog"
    using catalog_reachable get_recommendation_in_catalog by blast
  have crd: "card (set recommendation_catalog) = 6"
    using rec_distinct distinct_card [of recommendation_catalog]
    by (simp add: recommendation_catalog_def)
  have hi: "get_recommendation p clv =
        (if float_gt clv (Finite 30000) then rec_CRITICAL else rec_HIGH_PRIORITY)"
    if "float_gt p (Finite lit_0_4)"
    using that by (simp add: get_recommendation_def)
  have mid: "get_recommendation p clv =
        (if float_gt clv (Finite 30000) then rec_PROACTIVE else rec_MONITOR)"
    if "float_gt p (Finite lit_0_2)" "float_le p (Finite lit_0_4)"
    using that float_gt_le_excl [of p lit_0_4] by (auto simp: get_recommendation_def)
  have lo: "get_recommendation p clv =
        (if float_gt clv (Finite 40000) then rec_NURTURE else rec_MAINTAIN)"
    if "float_le p (Finite lit_0_2)"
    using that float_gt_le_excl [of p lit_0_2] float_le_trans_lit [of p lit_0_2 lit_0_4] lit_order
    by (auto simp: get_recommendation_def)
  show ?thesis
    using mem ne rng crd rec_nonempty hi mid lo by blast
qed

theorem recommendation_six_outputs_witness:
  "float_gt (Finite (1 / 4)) (Finite lit_0_2) \<and> float_le (Finite (1 / 4)) (Finite lit_0_4)
   \<and> float_gt (Finite 35000) (Finite 30000)
   \<and> get_recommendation (Finite (1 / 4)) (Finite 35000) = rec_PROACTIVE"
  using recommendation_six_outputs [of "Finite (1 / 4)" "Finite 35000"]
  by (simp add: float_gt_def float_le_def lit_defs)

text \<open>
  Claim C6. For every \<open>p\<close> and \<open>clv\<close> the probability band chosen inside
  \<open>get_recommendation\<close> is the risk tier of the handlers: the recommendation is
  CRITICAL or HIGH PRIORITY exactly when the tier is High, PROACTIVE or MONITOR exactly
  when it is Medium, NURTURE or MAINTAIN exactly when it is Low.
\<close>

theorem recommendation_band_matches_risk_tier:
  "(get_recommendation p clv \<in> {rec_CRITICAL, rec_HIGH_PRIORITY} \<longleftrightarrow> risk_level p = ''High'')
   \<and> (get_recommendation p clv \<in> {rec_PROACTIVE, rec_MONITOR} \<longleftrightarrow> risk_level p = ''Medium'')
   \<and> (get_recommendation p clv \<in> {rec_NURTURE, rec_MAINTAIN} \<longleftrightarrow> risk_level p = ''Low'')
   \<and> risk_level_batch p = risk_level p"
proof -
  have "float_gt p (Finite lit_0_2)" if "float_gt p (Finite lit_0_4)"
    using that float_gt_mono_lit [of p lit_0_4 lit_0_2] lit_order by simp
  then show ?thesis
    by (auto simp: get_recommendation_def risk_level_def risk_level_batch_def rec_defs)
qed

text \<open>
  Claim C10. \<open>get_recommendation\<close> and \<open>get_confidence_level\<close> return one of their
  fixed strings on every float, also outside [0,1], for an infinity and for NaN, and for
  every \<open>clv\<close>. For \<open>p < 0\<close> the confidence is Very High and the recommendation is
  one of the low band; for \<open>p > 1\<close> the confidence is Very High and the recommendation
  is one of the high band.
\<close>

theorem decision_functions_total:
  "get_recommendation p clv \<in> set recommendation_catalog
   \<and> get_confidence_level p \<in> {''Very High'', ''High'', ''Moderate'', ''Low''}
   \<and> (float_lt p (Finite 0) \<longrightarrow>
        get_confidence_level p = ''Very High''
        \<and> get_recommendation p clv \<in> {rec_NURTURE, rec_MAINTAIN})
   \<and> (float_gt p (Finite 1) \<longrightarrow>
        get_confidence_level p = ''Very High''
        \<and> get_recommendation p clv \<in> {rec_CRITICAL, rec_HIGH_PRIORITY})"
proof -
  have neg: "float_lt p (Finite lit_0_1) \<and> \<not> float_gt p (Finite lit_0_4)
      \<and> \<not> float_gt p (Finite lit_0_2)" if "float_lt p (Finite 0)"
    using that lit_order by (cases p) (auto simp: float_gt_def lit_defs)
  have big: "float_gt p (Finite lit_0_9) \<and> float_gt p (Finite lit_0_4)" if "float_gt p (Finite 1)"
    using that lit_order by (cases p) (auto simp: float_gt_def lit_defs)
  show ?thesis
    using neg big get_recommendation_in_catalog [of p clv]
    by (auto simp: get_confidence_level_def get_recommendation_def)
qed

theorem decision_functions_total_witness:
  "float_lt (Finite (- 1)) (Finite 0)
   \<and> get_confidence_level (Finite (- 1)) = ''Very High''
   \<and> get_recommendation (Finite (- 1)) (Finite (- 5)) = rec_MAINTAIN
   \<and> get_confidence_level NaN = ''Low''
   \<and> get_recommendation NaN NaN = rec_MAINTAIN
   \<and> get_recommendation PosInf NegInf = rec_HIGH_PRIORITY"
  using decision_functions_total [of "Finite (- 1)" "Finite (- 5)"] rec_distinct
  by (simp add: get_recommendation_def get_confidence_level_def float_gt_def lit_defs
      recommendation_catalog_def)


subsection \<open>Handlers\<close>

lemma predict_customer_loaded:
  "predict_customer (Some cm) (Some vm) c =
     (case predict_customer_try cm vm c of
        (Inr r, calls) \<Rightarrow> (Inr r, calls)
      | (Inl e, calls) \<Rightarrow>
          (Inl \<lparr>status_code = 500, detail = ''Prediction error: '' @ str e\<rparr>, calls))"
  by (simp add: predict_customer_def)

text \<open>
  The whole single-record pipeline when both models return: the response and the calls made.
\<close>

lemma predict_customer_success:
  assumes "cm (prepare_input_data c) = Inr p" and "vm (prepare_input_data c) = Inr v"
  shows "predict_customer (Some cm) (Some vm) c =
    (Inr \<lparr>churn_probability = p, churn_risk = risk_level p, estimated_clv = v,
          recommendation = get_recommendation p v, confidence = get_confidence_level p\<rparr>,
     [Call_prepare_input_data c, Call_predict_proba (prepare_input_data c),
      Call_predict (prepare_input_data c), Call_get_recommendation p v,
      Call_get_confidence_level p])"
  using assms by (simp add: predict_customer_loaded predict_customer_try_def Let_def)

lemma predict_customer_success_iff:
  "predict_customer (Some cm) (Some vm) c = (Inr r, l) \<longleftrightarrow> predict_customer_try cm vm c = (Inr r, l)"
  by (auto simp: predict_customer_loaded split: prod.splits sum.splits)

lemma predict_customer_failure_iff:
  "(\<exists>h. predict_customer (Some cm) (Some vm) c = (Inl h, l)) \<longleftrightarrow>
   (\<exists>e. predict_customer_try cm vm c = (Inl e, l))"
  by (auto simp: predict_customer_loaded split: prod.splits sum.splits)

lemma try_success_or_failure:
  "(\<exists>r l. predict_customer_try cm vm c = (Inr r, l)) \<or> (\<exists>e l. predict_customer_try cm vm c = (Inl e, l))"
  by (cases "predict_customer_try cm vm c") (metis sum.exhaust)

lemma batch_loop_step_success:
  assumes "predict_customer_try cm vm c = (Inr r, l)"
  shows "batch_loop cm vm (c # cs) results calls =
     batch_loop cm vm cs (results @ [response_dict r]) (calls @ l)"
proof (cases "cm (prepare_input_data c)")
  case (Inl e)
  with assms show ?thesis by (simp add: predict_customer_try_def Let_def)
next
  case p: (Inr churn_prob)
  show ?thesis
  proof (cases "vm (prepare_input_data c)")
    case (Inl e)
    with p assms show ?thesis by (simp add: predict_customer_try_def Let_def)
  next
    case (Inr clv)
    with p assms show ?thesis
      by (auto simp: predict_customer_try_def Let_def response_dict_def risk_level_def
          risk_level_batch_def)
  qed
qed

lemma batch_loop_step_failure:
  assumes "predict_customer_try cm vm c = (Inl e, l)"
  shows "batch_loop cm vm (c # cs) results calls = (Inl e, calls @ l)"
proof (cases "cm (prepare_input_data c)")
  case (Inl e')
  with assms show ?thesis by (auto simp: predict_customer_try_def Let_def)
next
  case p: (Inr churn_prob)
  show ?thesis
  proof (cases "vm (prepare_input_data c)")
    case (Inl e')
    with p assms show ?thesis by (auto simp: predict_customer_try_def Let_def)
  next
    case (Inr clv)
    with p assms show ?thesis by (simp add: predict_customer_try_def Let_def)
  qed
qed

lemma batch_loop_all_success:
  assumes "list_all2 (\<lambda>c r. \<exists>l. predict_customer_try cm vm c = (Inr r, l)) cs rs"
  shows "batch_loop cm vm cs results calls =
     (Inr (results @ map response_dict rs),
      calls @ concat (map (\<lambda>c. snd (predict_customer_try cm vm c)) cs))"
  using assms
proof (induction cs rs arbitrary: results calls rule: list_all2_induct)
  case Nil
  then show ?case by simp
next
  case (Cons c cs r rs)
  then obtain l where l: "predict_customer_try cm vm c = (Inr r, l)" by blast
  show ?case
    by (simp add: batch_loop_step_success [OF l] Cons.IH l del: batch_loop.simps)
qed

lemma batch_loop_first_failure:
  assumes "list_all2 (\<lambda>c r. \<exists>l. predict_customer_try cm vm c = (Inr r, l)) pre rs"
    and "predict_customer_try cm vm c = (Inl e, l)"
  shows "batch_loop cm vm (pre @ c # post) results calls =
     (Inl e, calls @ concat (map (\<lambda>c. snd (predict_customer_try cm vm c)) pre) @ l)"
  using assms
proof (induction pre rs arbitrary: results calls rule: list_all2_induct)
  case Nil
  then show ?case by (simp add: batch_loop_step_failure del: batch_loop.simps)
next
  case (Cons x pre r rs)
  then obtain lx where lx: "predict_customer_try cm vm x = (Inr r, lx)" by blast
  show ?case
    using Cons.IH [OF Cons.prems] by (simp add: batch_loop_step_success [OF lx] lx del: batch_loop.simps)
qed

lemma all_success_responses:
  assumes "\<forall>c \<in> set cs. \<exists>r l. predict_customer_try cm vm c = (Inr r, l)"
  shows "\<exists>rs. list_all2 (\<lambda>c r. \<exists>l. predict_customer_try cm vm c = (Inr r, l)) cs rs"
  using assms
proof (induction cs)
  case Nil
  then show ?case by simp
next
  case (Cons c cs)
  then obtain rs where "list_all2 (\<lambda>c r. \<exists>l. predict_customer_try cm vm c = (Inr r, l)) cs rs"
    by auto
  moreover from Cons.prems obtain r l where "predict_customer_try cm vm c = (Inr r, l)"
    by auto
  ultimately have "list_all2 (\<lambda>c r. \<exists>l. predict_customer_try cm vm c = (Inr r, l)) (c # cs) (r # rs)"
    by auto
  then show ?case by blast
qed


lemma try_success_iff:
  "(\<exists>r l. predict_customer_try cm vm c = (Inr r, l)) \<longleftrightarrow>
   (\<exists>p. cm (prepare_input_data c) = Inr p) \<and> (\<exists>v. vm (prepare_input_data c) = Inr v)"
  by (auto simp: predict_customer_try_def Let_def split: sum.splits)

lemma try_failure_churn:
  assumes "cm (prepare_input_data c) = Inl e"
  shows "predict_customer_try cm vm c =
    (Inl e, [Call_prepare_input_data c, Call_predict_proba (prepare_input_data c)])"
  using assms by (simp add: predict_customer_try_def Let_def)

lemma try_failure_clv:
  assumes "cm (prepare_input_data c) = Inr p" and "vm (prepare_input_data c) = Inl e"
  shows "predict_customer_try cm vm c =
    (Inl e, [Call_prepare_input_data c, Call_predict_proba (prepare_input_data c),
             Call_predict (prepare_input_data c)])"
  using assms by (simp add: predict_customer_try_def Let_def)

lemma batch_predict_loaded:
  "batch_predict (Some cm) (Some vm) customers =
     (case batch_loop cm vm customers [] [] of
        (Inr results, calls) \<Rightarrow>
          (Inr \<lparr>predictions = results, count = int (length results)\<rparr>, calls)
      | (Inl e, calls) \<Rightarrow>
          (Inl \<lparr>status_code = 500, detail = ''Batch prediction error: '' @ str e\<rparr>, calls))"
  by (simp add: batch_predict_def)

text \<open>
  Claim C7. If the churn model or the value model is not loaded, both \<^verbatim>\<open>/predict\<close>
  and \<^verbatim>\<open>/batch-predict\<close> fail with status 503, and the log of calls is empty: neither
  \<open>prepare_input_data\<close>, nor a model, nor a decision function has been invoked.
\<close>

theorem models_unavailable_short_circuit:
  assumes "churn_model = None \<or> clv_model = None"
  shows "predict_customer churn_model clv_model customer =
      (Inl \<lparr>status_code = 503,
            detail = ''ML models not loaded. Please ensure model files are available.''\<rparr>, [])
    \<and> batch_predict churn_model clv_model customers =
      (Inl \<lparr>status_code = 503, detail = ''ML models not loaded.''\<rparr>, [])"
  using assms by (auto simp: predict_customer_def batch_predict_def)

theorem models_unavailable_short_circuit_witness:
  "predict_customer None (Some (\<lambda>df. Inr (Finite 50000))) example_customer =
      (Inl \<lparr>status_code = 503,
            detail = ''ML models not loaded. Please ensure model files are available.''\<rparr>, [])
    \<and> batch_predict None (Some (\<lambda>df. Inr (Finite 50000))) [example_customer, example_customer] =
      (Inl \<lparr>status_code = 503, detail = ''ML models not loaded.''\<rparr>, [])"
  using models_unavailable_short_circuit
    [of None "Some (\<lambda>df. Inr (Finite 50000))" example_customer
        "[example_customer, example_customer]"]
  by simp

text \<open>
  Claim C8. With both models loaded: if both models return a value on every record of
  the input, the batch handler returns one prediction per record, in the order of the
  input, each the dictionary of the response the single-record handler gives for that
  record, with \<open>count\<close> the length of the input. If a model raises on some record, the
  batch handler returns only an error of status 500: there are no partial results.
\<close>

theorem batch_order_and_all_or_nothing:
  "((\<forall>c \<in> set customers. (\<exists>p. cm (prepare_input_data c) = Inr p)
        \<and> (\<exists>v. vm (prepare_input_data c) = Inr v)) \<longrightarrow>
      (\<exists>rs calls. batch_predict (Some cm) (Some vm) customers =
           (Inr \<lparr>predictions = map response_dict rs, count = int (length customers)\<rparr>, calls)
         \<and> length rs = length customers
         \<and> (\<forall>i < length customers.
               fst (predict_customer (Some cm) (Some vm) (customers ! i)) = Inr (rs ! i))))
   \<and> ((\<exists>c \<in> set customers. (\<exists>e. cm (prepare_input_data c) = Inl e)
        \<or> (\<exists>e. vm (prepare_input_data c) = Inl e)) \<longrightarrow>
      (\<exists>msg calls. batch_predict (Some cm) (Some vm) customers =
           (Inl \<lparr>status_code = 500, detail = ''Batch prediction error: '' @ msg\<rparr>, calls)))"
proof (intro conjI impI)
  assume ok: "\<forall>c \<in> set customers. (\<exists>p. cm (prepare_input_data c) = Inr p)
        \<and> (\<exists>v. vm (prepare_input_data c) = Inr v)"
  then have "\<forall>c \<in> set customers. \<exists>r l. predict_customer_try cm vm c = (Inr r, l)"
    using try_success_iff by blast
  then obtain rs where rs:
    "list_all2 (\<lambda>c r. \<exists>l. predict_customer_try cm vm c = (Inr r, l)) customers rs"
    using all_success_responses by blast
  then have len: "length rs = length customers"
    by (simp add: list_all2_lengthD)
  have item: "fst (predict_customer (Some cm) (Some vm) (customers ! i)) = Inr (rs ! i)"
    if "i < length customers" for i
  proof -
    from rs that obtain l where "predict_customer_try cm vm (customers ! i) = (Inr (rs ! i), l)"
      using list_all2_nthD by blast
    then show ?thesis by (simp add: predict_customer_loaded)
  qed
  have "batch_predict (Some cm) (Some vm) customers =
      (Inr \<lparr>predictions = map response_dict rs, count = int (length customers)\<rparr>,
       concat (map (\<lambda>c. snd (predict_customer_try cm vm c)) customers))"
    by (simp add: batch_predict_loaded batch_loop_all_success [OF rs] len)
  with len item show "\<exists>rs calls. batch_predict (Some cm) (Some vm) customers =
           (Inr \<lparr>predictions = map response_dict rs, count = int (length customers)\<rparr>, calls)
         \<and> length rs = length customers
         \<and> (\<forall>i < length customers.
               fst (predict_customer (Some cm) (Some vm) (customers ! i)) = Inr (rs ! i))"
    by blast
next
  assume "\<exists>c \<in> set customers. (\<exists>e. cm (prepare_input_data c) = Inl e)
        \<or> (\<exists>e. vm (prepare_input_data c) = Inl e)"
  then have "\<exists>c \<in> set customers. \<not> (\<exists>r l. predict_customer_try cm vm c = (Inr r, l))"
    unfolding try_success_iff by (metis Inl_Inr_False)
  then obtain pre c post where split: "customers = pre @ c # post"
    and bad: "\<not> (\<exists>r l. predict_customer_try cm vm c = (Inr r, l))"
    and good: "\<forall>x \<in> set pre. \<not> \<not> (\<exists>r l. predict_customer_try cm vm x = (Inr r, l))"
    using split_list_first_prop [of customers "\<lambda>c. \<not> (\<exists>r l. predict_customer_try cm vm c = (Inr r, l))"]
    by blast
  from bad obtain e l where e: "predict_customer_try cm vm c = (Inl e, l)"
    using try_success_or_failure [of cm vm c] by blast
  from good obtain rs where
    "list_all2 (\<lambda>c r. \<exists>l. predict_customer_try cm vm c = (Inr r, l)) pre rs"
    using all_success_responses [of pre cm vm] by blast
  from batch_loop_first_failure [OF this e]
  have "batch_predict (Some cm) (Some vm) customers =
      (Inl \<lparr>status_code = 500, detail = ''Batch prediction error: '' @ str e\<rparr>,
       concat (map (\<lambda>c. snd (predict_customer_try cm vm c)) pre) @ l)"
    by (simp add: batch_predict_loaded split)
  then show "\<exists>msg calls. batch_predict (Some cm) (Some vm) customers =
           (Inl \<lparr>status_code = 500, detail = ''Batch prediction error: '' @ msg\<rparr>, calls)"
    by blast
qed


lemma example_models_eval:
  "example_churn_model (prepare_input_data example_customer) = Inr (Finite (1 / 2))"
  "example_churn_model (prepare_input_data (example_customer\<lparr>state := ''NY''\<rparr>)) = Inr (Finite (1 / 2))"
  "example_churn_model (prepare_input_data (example_customer\<lparr>state := ''ZZ''\<rparr>)) =
     Inl (PyException ''unknown category ZZ'')"
  by (simp_all add: example_churn_model_def prepare_input_data_def example_customer_def)

theorem batch_order_and_all_or_nothing_witness:
  "(\<exists>rs calls. batch_predict (Some example_churn_model) (Some example_clv_model)
        [example_customer, example_customer\<lparr>state := ''NY''\<rparr>] =
           (Inr \<lparr>predictions = map response_dict rs, count = 2\<rparr>, calls)
      \<and> length rs = 2
      \<and> fst (predict_customer (Some example_churn_model) (Some example_clv_model)
            (example_customer\<lparr>state := ''NY''\<rparr>)) = Inr (rs ! 1))
   \<and> (\<exists>msg calls. batch_predict (Some example_churn_model) (Some example_clv_model)
        [example_customer, example_customer\<lparr>state := ''ZZ''\<rparr>, example_customer] =
           (Inl \<lparr>status_code = 500, detail = ''Batch prediction error: '' @ msg\<rparr>, calls))"
proof -
  have ok: "\<forall>c \<in> set [example_customer, example_customer\<lparr>state := ''NY''\<rparr>].
      (\<exists>p. example_churn_model (prepare_input_data c) = Inr p)
      \<and> (\<exists>v. example_clv_model (prepare_input_data c) = Inr v)"
    by (simp add: example_models_eval example_clv_model_def)
  have bad: "\<exists>c \<in> set [example_customer, example_customer\<lparr>state := ''ZZ''\<rparr>, example_customer].
      (\<exists>e. example_churn_model (prepare_input_data c) = Inl e)
      \<or> (\<exists>e. example_clv_model (prepare_input_data c) = Inl e)"
    by (simp add: example_models_eval)
  from batch_order_and_all_or_nothing
    [of "[example_customer, example_customer\<lparr>state := ''NY''\<rparr>]"
        example_churn_model example_clv_model] ok
  have first: "\<exists>rs calls. batch_predict (Some example_churn_model) (Some example_clv_model)
        [example_customer, example_customer\<lparr>state := ''NY''\<rparr>] =
           (Inr \<lparr>predictions = map response_dict rs, count = 2\<rparr>, calls)
      \<and> length rs = 2
      \<and> fst (predict_customer (Some example_churn_model) (Some example_clv_model)
            (example_customer\<lparr>state := ''NY''\<rparr>)) = Inr (rs ! 1)"
    by fastforce
  from batch_order_and_all_or_nothing
    [of "[example_customer, example_customer\<lparr>state := ''ZZ''\<rparr>, example_customer]"
        example_churn_model example_clv_model] bad
  have second: "\<exists>msg calls. batch_predict (Some example_churn_model) (Some example_clv_model)
        [example_customer, example_customer\<lparr>state := ''ZZ''\<rparr>, example_customer] =
           (Inl \<lparr>status_code = 500, detail = ''Batch prediction error: '' @ msg\<rparr>, calls)"
    by blast
  from first second show ?thesis by blast
qed

text \<open>
  Claim C9. An exception raised by a model after the models-loaded check surfaces as
  status 500, with the exception's message after the handler's prefix. In the
  single-record handler the log ends with the call that raised, so nothing is attempted
  again. In the batch handler the error is that of the first record on which a model
  raises; the log holds the calls of the records before it, then the calls of that record
  up to the one that raised.
\<close>

theorem prediction_failed_carries_message:
  "(cm (prepare_input_data c) = Inl e \<longrightarrow>
      predict_customer (Some cm) (Some vm) c =
        (Inl \<lparr>status_code = 500, detail = ''Prediction error: '' @ str e\<rparr>,
         [Call_prepare_input_data c, Call_predict_proba (prepare_input_data c)]))
   \<and> (cm (prepare_input_data c) = Inr p \<and> vm (prepare_input_data c) = Inl e \<longrightarrow>
      predict_customer (Some cm) (Some vm) c =
        (Inl \<lparr>status_code = 500, detail = ''Prediction error: '' @ str e\<rparr>,
         [Call_prepare_input_data c, Call_predict_proba (prepare_input_data c),
          Call_predict (prepare_input_data c)]))
   \<and> ((\<forall>x \<in> set pre. (\<exists>p. cm (prepare_input_data x) = Inr p)
          \<and> (\<exists>v. vm (prepare_input_data x) = Inr v))
      \<and> (cm (prepare_input_data c) = Inl e
          \<or> (\<exists>p. cm (prepare_input_data c) = Inr p) \<and> vm (prepare_input_data c) = Inl e) \<longrightarrow>
      (\<exists>calls. batch_predict (Some cm) (Some vm) (pre @ c # post) =
          (Inl \<lparr>status_code = 500, detail = ''Batch prediction error: '' @ str e\<rparr>,
           concat (map (\<lambda>x. snd (predict_customer_try cm vm x)) pre) @ calls)
        \<and> (calls = [Call_prepare_input_data c, Call_predict_proba (prepare_input_data c)]
           \<or> calls = [Call_prepare_input_data c, Call_predict_proba (prepare_input_data c),
                       Call_predict (prepare_input_data c)])))"
proof (intro conjI impI)
  assume "cm (prepare_input_data c) = Inl e"
  then show "predict_customer (Some cm) (Some vm) c =
        (Inl \<lparr>status_code = 500, detail = ''Prediction error: '' @ str e\<rparr>,
         [Call_prepare_input_data c, Call_predict_proba (prepare_input_data c)])"
    by (simp add: predict_customer_loaded try_failure_churn)
next
  assume "cm (prepare_input_data c) = Inr p \<and> vm (prepare_input_data c) = Inl e"
  then show "predict_customer (Some cm) (Some vm) c =
        (Inl \<lparr>status_code = 500, detail = ''Prediction error: '' @ str e\<rparr>,
         [Call_prepare_input_data c, Call_predict_proba (prepare_input_data c),
          Call_predict (prepare_input_data c)])"
    by (simp add: predict_customer_loaded try_failure_clv)
next
  assume h: "(\<forall>x \<in> set pre. (\<exists>p. cm (prepare_input_data x) = Inr p)
          \<and> (\<exists>v. vm (prepare_input_data x) = Inr v))
      \<and> (cm (prepare_input_data c) = Inl e
          \<or> (\<exists>p. cm (prepare_input_data c) = Inr p) \<and> vm (prepare_input_data c) = Inl e)"
  then have "\<forall>x \<in> set pre. \<exists>r l. predict_customer_try cm vm x = (Inr r, l)"
    using try_success_iff by blast
  then obtain rs where rs:
    "list_all2 (\<lambda>c r. \<exists>l. predict_customer_try cm vm c = (Inr r, l)) pre rs"
    using all_success_responses by blast
  from h obtain calls where c: "predict_customer_try cm vm c = (Inl e, calls)"
    and shape: "calls = [Call_prepare_input_data c, Call_predict_proba (prepare_input_data c)]
           \<or> calls = [Call_prepare_input_data c, Call_predict_proba (prepare_input_data c),
                       Call_predict (prepare_input_data c)]"
    using try_failure_churn [of cm c e vm] try_failure_clv [of cm c _ vm e] by blast
  have "batch_predict (Some cm) (Some vm) (pre @ c # post) =
          (Inl \<lparr>status_code = 500, detail = ''Batch prediction error: '' @ str e\<rparr>,
           concat (map (\<lambda>x. snd (predict_customer_try cm vm x)) pre) @ calls)"
    by (simp add: batch_predict_loaded batch_loop_first_failure [OF rs c])
  with shape show "\<exists>calls. batch_predict (Some cm) (Some vm) (pre @ c # post) =
          (Inl \<lparr>status_code = 500, detail = ''Batch prediction error: '' @ str e\<rparr>,
           concat (map (\<lambda>x. snd (predict_customer_try cm vm x)) pre) @ calls)
        \<and> (calls = [Call_prepare_input_data c, Call_predict_proba (prepare_input_data c)]
           \<or> calls = [Call_prepare_input_data c, Call_predict_proba (prepare_input_data c),
                       Call_predict (prepare_input_data c)])"
    by blast
qed

theorem prediction_failed_carries_message_witness:
  "example_churn_model (prepare_input_data (example_customer\<lparr>state := ''ZZ''\<rparr>)) =
      Inl (PyException ''unknown category ZZ'')
   \<and> predict_customer (Some example_churn_model) (Some example_clv_model)
        (example_customer\<lparr>state := ''ZZ''\<rparr>) =
      (Inl \<lparr>status_code = 500, detail = ''Prediction error: unknown category ZZ''\<rparr>,
       [Call_prepare_input_data (example_customer\<lparr>state := ''ZZ''\<rparr>),
        Call_predict_proba (prepare_input_data (example_customer\<lparr>state := ''ZZ''\<rparr>))])
   \<and> fst (batch_predict (Some example_churn_model) (Some example_clv_model)
        [example_customer, example_customer\<lparr>state := ''ZZ''\<rparr>, example_customer]) =
      Inl \<lparr>status_code = 500, detail = ''Batch prediction error: unknown category ZZ''\<rparr>"
proof -
  have f: "example_churn_model (prepare_input_data (example_customer\<lparr>state := ''ZZ''\<rparr>)) =
      Inl (PyException ''unknown category ZZ'')"
    by (rule example_models_eval)
  have ok: "\<forall>x \<in> set [example_customer].
      (\<exists>p. example_churn_model (prepare_input_data x) = Inr p)
      \<and> (\<exists>v. example_clv_model (prepare_input_data x) = Inr v)"
    by (simp add: example_models_eval example_clv_model_def)
  from prediction_failed_carries_message
    [of example_churn_model "example_customer\<lparr>state := ''ZZ''\<rparr>"
        "PyException ''unknown category ZZ''" example_clv_model _ "[example_customer]"
        "[example_customer]"] f ok
  show ?thesis by auto
qed


end
